theory Spec2Isabelle
  imports Main
begin

section \<open>The declaration module \<open>framework/layer_apis.py\<close>\<close>

text \<open>
  The module consists of three top-level assignments, each binding a name to a list
  literal of strings.  The three literals are embedded as they stand in the source, in
  the source's order.
\<close>

definition override_functions :: "string list" where
  "override_functions =
    [''xrCreateSession'',
     ''xrCreateSwapchain'',
     ''xrDestroySwapchain'',
     ''xrEnumerateSwapchainImages'',
     ''xrAcquireSwapchainImage'',
     ''xrReleaseSwapchainImage'',
     ''xrLocateViews'',
     ''xrBeginFrame'',
     ''xrEndFrame'',
     ''xrCreateReferenceSpace'']"

definition requested_functions :: "string list" where
  "requested_functions =
    [''xrGetInstanceProperties'',
     ''xrGetSystemProperties'',
     ''xrGetSystem'',
     ''xrEnumerateViewConfigurationViews'']"

definition extensions :: "string list" where
  "extensions = []"

subsection \<open>The module as a namespace\<close>

text \<open>
  Importing a Python module runs its top-level statements in order against an initially
  empty namespace; an assignment binds (or rebinds) its name.  The module body is the
  list of its three assignments, and \<open>layer_apis\<close> is the namespace left once the
  body has run.
\<close>

type_synonym namespace = "string \<rightharpoonup> string list"

datatype stmt = Assign string "string list"

fun exec_stmt :: "namespace \<Rightarrow> stmt \<Rightarrow> namespace" where
  "exec_stmt ns (Assign x v) = ns(x \<mapsto> v)"

definition layer_apis_body :: "stmt list" where
  "layer_apis_body =
    [Assign ''override_functions'' override_functions,
     Assign ''requested_functions'' requested_functions,
     Assign ''extensions'' extensions]"

definition layer_apis :: namespace where
  "layer_apis = foldl exec_stmt Map.empty layer_apis_body"

subsection \<open>The categories of the design's scope statement\<close>

text \<open>
  The following definitions do not come from the source: they follow the words of the
  design document, which describes the overridden subset as "session, swapchain,
  view-location, and frame-boundary calls".  An OpenXR entry point carries the object or
  operation it works on in its name, so a name is put in a category when the category's
  keyword occurs in it: \<open>Session\<close>, \<open>Swapchain\<close>, \<open>LocateViews\<close>, and
  \<open>Frame\<close> (as in \<open>xrWaitFrame\<close>, \<open>xrBeginFrame\<close>, \<open>xrEndFrame\<close>).
  A name with none of the four keywords is in none of the four categories.
\<close>

fun has_prefix :: "string \<Rightarrow> string \<Rightarrow> bool" where
  "has_prefix [] s = True"
| "has_prefix (c # p) [] = False"
| "has_prefix (c # p) (d # s) = (c = d \<and> has_prefix p s)"

fun contains :: "string \<Rightarrow> string \<Rightarrow> bool" where
  "contains p [] = (p = [])"
| "contains p (d # s) = (has_prefix p (d # s) \<or> contains p s)"

datatype category = Session | Swapchain | ViewLocation | FrameBoundary

definition spec_category :: "string \<Rightarrow> category option" where
  "spec_category n =
    (if contains ''Session'' n then Some Session
     else if contains ''Swapchain'' n then Some Swapchain
     else if contains ''LocateViews'' n then Some ViewLocation
     else if contains ''Frame'' n then Some FrameBoundary
     else None)"

subsection \<open>The layer's dispatch of application calls\<close>

text \<open>
  Modelled from the spec: the dispatch code of the layer framework, which is generated
  from this module and is not among the sources.  The design states that the layer
  overrides the entry points named in \<open>override_functions\<close> "while transparently
  forwarding all others", and that its dispatch table is built by resolving "every name
  in the override and requested-function sets".  Accordingly a name is intercepted when
  it is in \<open>override_functions\<close>, it is resolved when it is in either list, and an
  application call is routed to the core's implementation when the name is intercepted
  and to the next layer or runtime, with the arguments unchanged, otherwise.  The core's
  implementations \<open>core\<close> and the next layer's entry points \<open>next\<close> are parameters.
\<close>

definition layer_intercepts :: "string \<Rightarrow> bool" where
  "layer_intercepts n = (n \<in> set override_functions)"

definition layer_resolves :: "string \<Rightarrow> bool" where
  "layer_resolves n = (n \<in> set override_functions \<or> n \<in> set requested_functions)"

definition app_call ::
  "(string \<Rightarrow> 'a \<Rightarrow> 'r) \<Rightarrow> (string \<Rightarrow> 'a \<Rightarrow> 'r) \<Rightarrow> string \<Rightarrow> 'a \<Rightarrow> 'r" where
  "app_call core next n args = (if layer_intercepts n then core n args else next n args)"

section \<open>Auxiliary facts\<close>

lemma distinct_count_list_one:
  "distinct xs \<Longrightarrow> x \<in> set xs \<Longrightarrow> count_list xs x = 1"
  by (induction xs) auto

section \<open>Properties of the declared lists\<close>

text \<open>
  Claim C1, as stated: every function name in \<open>override_functions\<close> is a session,
  swapchain, view-location, or frame-boundary entry point.  This fails at the last
  element of the list: \<open>xrCreateReferenceSpace\<close> is overridden, and it is a
  reference-space creation call, in none of the four categories.
\<close>

theorem override_categories_counterexample:
  "''xrCreateReferenceSpace'' \<in> set override_functions \<and>
   spec_category ''xrCreateReferenceSpace'' = None"
  by (simp add: override_functions_def spec_category_def)

text \<open>
  Claim C1, amended: every function name in \<open>override_functions\<close> other than
  \<open>xrCreateReferenceSpace\<close> is a session, swapchain, view-location, or
  frame-boundary entry point.
\<close>

theorem override_categories:
  "\<forall>n \<in> set override_functions.
     n = ''xrCreateReferenceSpace'' \<or> spec_category n \<noteq> None"
  by (simp add: override_functions_def spec_category_def)

theorem override_categories_witness:
  "spec_category ''xrLocateViews'' \<noteq> None"
proof -
  have "''xrLocateViews'' \<in> set override_functions"
    by (simp add: override_functions_def)
  with override_categories
  have "''xrLocateViews'' = ''xrCreateReferenceSpace'' \<or> spec_category ''xrLocateViews'' \<noteq> None"
    by (rule bspec)
  then show ?thesis by simp
qed

text \<open>
  Claim C2.  The declared scope has exactly 10 overridden entry points, exactly 4
  requested (forwarded-only) entry points, and no extensions: \<open>override_functions\<close>
  has length 10, \<open>requested_functions\<close> has length 4, and \<open>extensions\<close> is the
  empty list.
\<close>

theorem declared_scope_sizes:
  "length override_functions = 10 \<and> length requested_functions = 4 \<and> extensions = []"
  by (simp add: override_functions_def requested_functions_def extensions_def)

text \<open>
  Claim C3.  The set of requested functions is exactly the four names
  \<open>xrGetInstanceProperties\<close>, \<open>xrGetSystemProperties\<close>, \<open>xrGetSystem\<close> and
  \<open>xrEnumerateViewConfigurationViews\<close>, and each of the four is absent from
  \<open>override_functions\<close>: all four are requested but not overridden.
\<close>

theorem requested_not_overridden:
  "set requested_functions =
     {''xrGetInstanceProperties'', ''xrGetSystemProperties'', ''xrGetSystem'',
      ''xrEnumerateViewConfigurationViews''} \<and>
   ''xrGetInstanceProperties'' \<notin> set override_functions \<and>
   ''xrGetSystemProperties'' \<notin> set override_functions \<and>
   ''xrGetSystem'' \<notin> set override_functions \<and>
   ''xrEnumerateViewConfigurationViews'' \<notin> set override_functions"
  by (simp add: override_functions_def requested_functions_def)

text \<open>
  Claim C4.  The five swapchain-lifecycle entry points \<open>xrCreateSwapchain\<close>,
  \<open>xrDestroySwapchain\<close>, \<open>xrEnumerateSwapchainImages\<close>,
  \<open>xrAcquireSwapchainImage\<close> and \<open>xrReleaseSwapchainImage\<close> are all members of
  \<open>override_functions\<close>.
\<close>

theorem swapchain_entry_points_overridden:
  "''xrCreateSwapchain'' \<in> set override_functions \<and>
   ''xrDestroySwapchain'' \<in> set override_functions \<and>
   ''xrEnumerateSwapchainImages'' \<in> set override_functions \<and>
   ''xrAcquireSwapchainImage'' \<in> set override_functions \<and>
   ''xrReleaseSwapchainImage'' \<in> set override_functions"
  by (simp add: override_functions_def)

text \<open>
  Claim C5.  The three frame-pipeline entry points \<open>xrBeginFrame\<close>,
  \<open>xrLocateViews\<close> and \<open>xrEndFrame\<close> are all members of \<open>override_functions\<close>.
\<close>

theorem frame_entry_points_overridden:
  "''xrBeginFrame'' \<in> set override_functions \<and>
   ''xrLocateViews'' \<in> set override_functions \<and>
   ''xrEndFrame'' \<in> set override_functions"
  by (simp add: override_functions_def)

text \<open>
  Claim C6.  Both \<open>xrCreateSession\<close> and \<open>xrCreateReferenceSpace\<close> are members of
  \<open>override_functions\<close>.
\<close>

theorem session_and_space_creation_overridden:
  "''xrCreateSession'' \<in> set override_functions \<and>
   ''xrCreateReferenceSpace'' \<in> set override_functions"
  by (simp add: override_functions_def)

text \<open>
  Claim C7.  There is no override for session destruction: the name
  \<open>xrDestroySession\<close> occurs neither in \<open>override_functions\<close> nor in
  \<open>requested_functions\<close>.
\<close>

theorem destroy_session_not_declared:
  "''xrDestroySession'' \<notin> set override_functions \<and>
   ''xrDestroySession'' \<notin> set requested_functions"
  by (simp add: override_functions_def requested_functions_def)

text \<open>
  Claim C8.  The declaration module supplies exactly three names,
  \<open>override_functions\<close>, \<open>requested_functions\<close> and \<open>extensions\<close>; each is
  bound to a list of name strings (the two lists above and the empty list), and
  \<open>extensions\<close> is empty.
\<close>

theorem module_supplies_three_lists:
  "dom layer_apis = {''override_functions'', ''requested_functions'', ''extensions''} \<and>
   layer_apis ''override_functions'' = Some override_functions \<and>
   layer_apis ''requested_functions'' = Some requested_functions \<and>
   layer_apis ''extensions'' = Some []"
  by (simp add: layer_apis_def layer_apis_body_def extensions_def insert_commute)

text \<open>
  Claim C9.  Every name within \<open>override_functions\<close> appears exactly once in that
  list, every name within \<open>requested_functions\<close> appears exactly once in that list,
  and no name appears in both lists.
\<close>

theorem names_unique_and_lists_disjoint:
  "(\<forall>n \<in> set override_functions. count_list override_functions n = 1) \<and>
   (\<forall>n \<in> set requested_functions. count_list requested_functions n = 1) \<and>
   set override_functions \<inter> set requested_functions = {}"
proof -
  have d1: "distinct override_functions"
    by (simp add: override_functions_def)
  have d2: "distinct requested_functions"
    by (simp add: requested_functions_def)
  have dj: "set override_functions \<inter> set requested_functions = {}"
    by (simp add: override_functions_def requested_functions_def)
  from d1 have c1: "\<forall>n \<in> set override_functions. count_list override_functions n = 1"
    by (blast intro: distinct_count_list_one)
  from d2 have c2: "\<forall>n \<in> set requested_functions. count_list requested_functions n = 1"
    by (blast intro: distinct_count_list_one)
  from c1 c2 dj show ?thesis by (intro conjI)
qed

theorem names_unique_and_lists_disjoint_witness:
  "count_list override_functions ''xrEndFrame'' = 1 \<and>
   count_list requested_functions ''xrGetSystem'' = 1"
proof -
  have a: "''xrEndFrame'' \<in> set override_functions"
    by (simp add: override_functions_def)
  have b: "''xrGetSystem'' \<in> set requested_functions"
    by (simp add: requested_functions_def)
  have p: "\<forall>n \<in> set override_functions. count_list override_functions n = 1"
    using names_unique_and_lists_disjoint by (rule conjunct1)
  have q: "\<forall>n \<in> set requested_functions. count_list requested_functions n = 1"
    using names_unique_and_lists_disjoint [THEN conjunct2] by (rule conjunct1)
  from bspec [OF p a] bspec [OF q b] show ?thesis by (rule conjI)
qed

text \<open>
  Claim C10.  The frame-boundary entry point \<open>xrWaitFrame\<close> is in neither
  \<open>override_functions\<close> nor \<open>requested_functions\<close>: the layer neither intercepts
  nor resolves \<open>xrWaitFrame\<close>, so an application call to it always passes straight
  through: whatever the core's implementations, the next layer's entry points and the
  arguments are, the call is the next layer's \<open>xrWaitFrame\<close> on the same arguments.
\<close>

theorem wait_frame_passes_through:
  "''xrWaitFrame'' \<notin> set override_functions \<and>
   ''xrWaitFrame'' \<notin> set requested_functions \<and>
   \<not> layer_intercepts ''xrWaitFrame'' \<and>
   \<not> layer_resolves ''xrWaitFrame'' \<and>
   app_call core next ''xrWaitFrame'' args = next ''xrWaitFrame'' args"
  by (simp add: app_call_def layer_intercepts_def layer_resolves_def
      override_functions_def requested_functions_def)

end
